theory Spec2Isabelle
  imports Main "HOL-Library.AList"
begin

section \<open>The query builder of \<open>src/query/query.js\<close>\<close>

text \<open>
  The module defines the class \<open>Query\<close>: an array of verbs, an optional parameter
  object and an optional table name. The embedding keeps what JavaScript makes
  observable:
  \<^item> Query instances and parameter objects have identity, so they live in a store and
    are named by references; \<open>new Query\<close> and an object literal allocate;
  \<^item> the arrays held in \<open>_verbs\<close> are never updated in place by this module
    (\<open>concat\<close> and \<open>map\<close> build new arrays), so they are list values;
  \<^item> an exception is an \<open>Inl\<close> result;
  \<^item> the collaborators the module imports but does not define (verbs, tables, the
    catalog, \<open>Verb.from\<close>, the node type constant) are parameters.
\<close>

subsection \<open>Values and objects\<close>

type_synonym ref = nat

text \<open>
  The values found in the fields of a serialized query. \<open>'o\<close> is the plain data a verb
  serializes to; \<open>Ref\<close> is a reference to a parameter object.
\<close>

datatype 'o jsval = Undefined | Null | Str string | Arr "'o list" | Ref ref

text \<open>An object literal: its own keys, in insertion order, with their values.\<close>

type_synonym 'o jsobject = "(string \<times> 'o jsval) list"

text \<open>
  A verb is consumed through three methods: \<open>evaluate(table, catalog)\<close>,
  \<open>toObject()\<close> and \<open>toAST()\<close>. \<open>'t\<close> is the type of tables, \<open>'e\<close> the type of
  thrown values. The catalog is a function from a table name (possibly
  \<open>undefined\<close>) to a table, which may throw.
\<close>

type_synonym ('t, 'e) catalog = "string option \<Rightarrow> 'e + 't"

record ('t, 'e, 'o) Verb =
  v_evaluate :: "'t \<Rightarrow> ('t, 'e) catalog \<Rightarrow> 'e + 't"
  v_toObject :: 'o
  v_toAST :: 'o

text \<open>
  The fields of a Query instance: \<open>_verbs\<close>, \<open>_params\<close> (a reference to the
  parameter object, or absent) and \<open>_table\<close> (a string, or absent).
\<close>

record ('t, 'e, 'o) Query =
  q_verbs :: "('t, 'e, 'o) Verb list"
  q_params :: "ref option"
  q_table :: "string option"

text \<open>
  The store: Query instances and parameter objects, each addressed by its index.
  A parameter object maps parameter names to values of type \<open>'v\<close>; the order of its
  keys is not modelled.
\<close>

record ('t, 'e, 'o, 'v) heap =
  queries :: "('t, 'e, 'o) Query list"
  objects :: "(string \<rightharpoonup> 'v) list"

definition empty_heap :: "('t, 'e, 'o, 'v) heap" where
  "empty_heap = \<lparr>queries = [], objects = []\<rparr>"

text \<open>A reference is live when it addresses an allocated cell.\<close>

definition live_query :: "('t, 'e, 'o, 'v) heap \<Rightarrow> ref \<Rightarrow> bool" where
  "live_query h q \<longleftrightarrow>
     q < length (queries h) \<and>
     (case q_params (queries h ! q) of None \<Rightarrow> True | Some p \<Rightarrow> p < length (objects h))"

subsection \<open>Construction\<close>

text \<open>
  Modelled from the spec: the constructor of the base class \<open>Transformable\<close>
  (\<open>super(params)\<close>), which is not part of this module. It is the inherited parameter
  store: it keeps the given parameter object in \<open>_params\<close>, and keeps nothing when
  none is given.

  \<open>constructor(verbs, params, table)\<close> then sets \<open>_verbs = verbs || []\<close> and
  \<open>_table = table\<close>. The new instance is allocated at the end of the store.
\<close>

definition new_Query ::
  "('t, 'e, 'o, 'v) heap \<Rightarrow> ('t, 'e, 'o) Verb list option \<Rightarrow> ref option \<Rightarrow> string option \<Rightarrow>
   ref \<times> ('t, 'e, 'o, 'v) heap" where
  "new_Query h verbs params table =
     (length (queries h),
      h\<lparr>queries := queries h @
           [\<lparr>q_verbs = (case verbs of None \<Rightarrow> [] | Some vs \<Rightarrow> vs),
             q_params = params,
             q_table = table\<rparr>]\<rparr>)"

text \<open>\<open>query(tableName)\<close> is \<open>new Query(null, null, tableName)\<close>.\<close>

definition query ::
  "('t, 'e, 'o, 'v) heap \<Rightarrow> string option \<Rightarrow> ref \<times> ('t, 'e, 'o, 'v) heap" where
  "query h tableName = new_Query h None None tableName"

text \<open>The getters \<open>length\<close> and \<open>tableName\<close>.\<close>

definition Query_length :: "('t, 'e, 'o, 'v) heap \<Rightarrow> ref \<Rightarrow> nat" where
  "Query_length h this = length (q_verbs (queries h ! this))"

definition tableName :: "('t, 'e, 'o, 'v) heap \<Rightarrow> ref \<Rightarrow> string option" where
  "tableName h this = q_table (queries h ! this)"

subsection \<open>Appending a verb\<close>

text \<open>
  \<open>append(qb, verb)\<close>, here \<open>append_query\<close>, is \<open>new Query(qb._verbs.concat(verb), qb._params, qb._table)\<close>:
  the new instance holds a new array and the same parameter reference.
\<close>

definition append_query ::
  "('t, 'e, 'o, 'v) heap \<Rightarrow> ref \<Rightarrow> ('t, 'e, 'o) Verb \<Rightarrow> ref \<times> ('t, 'e, 'o, 'v) heap" where
  "append_query h qb verb =
     new_Query h
       (Some (q_verbs (queries h ! qb) @ [verb]))
       (q_params (queries h ! qb))
       (q_table (queries h ! qb))"

text \<open>
  \<open>Query.prototype\<close> as far as verbs go: a table from method names to methods. A
  public method takes \<open>this\<close> and the arguments; an internal one takes only the
  arguments, the Query to extend being the first of them.
\<close>

type_synonym ('t, 'e, 'o, 'v, 'a) builder =
  "('t, 'e, 'o, 'v) heap \<Rightarrow> ref \<Rightarrow> 'a \<Rightarrow> ref \<times> ('t, 'e, 'o, 'v) heap"

type_synonym ('t, 'e, 'o, 'v, 'a) prototype =
  "string \<rightharpoonup> ('t, 'e, 'o, 'v, 'a) builder"

text \<open>
  \<open>addQueryVerb(name, verb)\<close> installs under \<open>name\<close> the method
  \<open>function(...args) { return append(this, verb(...args)); }\<close>.
\<close>

definition addQueryVerb ::
  "string \<Rightarrow> ('a \<Rightarrow> ('t, 'e, 'o) Verb) \<Rightarrow> ('t, 'e, 'o, 'v, 'a) prototype \<Rightarrow>
   ('t, 'e, 'o, 'v, 'a) prototype" where
  "addQueryVerb name verb proto = proto(name \<mapsto> (\<lambda>h this args. append_query h this (verb args)))"

text \<open>
  The internal handlers: for each \<open>name\<close> in the table \<open>Verbs\<close> (imported, so a
  parameter here), the method \<open>'__' + name\<close> is
  \<open>function(qb, ...args) { return append(qb, verb(...args)); }\<close>. It ignores \<open>this\<close>.
\<close>

definition addInternalVerbs ::
  "(string \<times> ('a \<Rightarrow> ('t, 'e, 'o) Verb)) list \<Rightarrow> ('t, 'e, 'o, 'v, ref \<times> 'a) prototype \<Rightarrow>
   ('t, 'e, 'o, 'v, ref \<times> 'a) prototype" where
  "addInternalVerbs Verbs proto =
     fold (\<lambda>(name, verb) pr.
             pr(''__'' @ name \<mapsto> (\<lambda>h this (qb, args). append_query h qb (verb args))))
          Verbs proto"

subsection \<open>Serialization\<close>

text \<open>
  Spreading an object into an object literal under construction sets each of its
  keys in turn; spreading \<open>null\<close> or \<open>undefined\<close> (here \<open>None\<close>) sets nothing.
  Setting a key that the literal already has replaces the value in place.
\<close>

definition spread :: "'o jsobject option \<Rightarrow> 'o jsobject \<Rightarrow> 'o jsobject" where
  "spread src obj =
     (case src of None \<Rightarrow> obj | Some kvs \<Rightarrow> fold (\<lambda>(k, v). AList.update k v) kvs obj)"

text \<open>
  \<open>serialize(query, method, props)\<close> builds the literal
  \<open>{...props, verbs: ..., ...(_params ? {params} : null), ...(_table ? {table} : null)}\<close>.
  A parameter object is truthy; a table name is truthy when it is not the empty
  string. \<open>method\<close> is the verb method that \<open>verb[method]()\<close> calls.
\<close>

definition serialize ::
  "('t, 'e, 'o, 'v) heap \<Rightarrow> ref \<Rightarrow> (('t, 'e, 'o) Verb \<Rightarrow> 'o) \<Rightarrow> 'o jsobject option \<Rightarrow>
   'o jsobject" where
  "serialize h qry method props =
     (let q = queries h ! qry in
      spread (case q_table q of
                None \<Rightarrow> None
              | Some t \<Rightarrow> if t \<noteq> [] then Some [(''table'', Str t)] else None)
        (spread (case q_params q of
                   None \<Rightarrow> None
                 | Some p \<Rightarrow> Some [(''params'', Ref p)])
           (AList.update ''verbs'' (Arr (map method (q_verbs q)))
              (spread props []))))"

definition toObject :: "('t, 'e, 'o, 'v) heap \<Rightarrow> ref \<Rightarrow> 'o jsobject" where
  "toObject h this = serialize h this v_toObject None"

definition toJSON :: "('t, 'e, 'o, 'v) heap \<Rightarrow> ref \<Rightarrow> 'o jsobject" where
  "toJSON h this = toObject h this"

text \<open>
  \<open>toAST()\<close> passes \<open>{ type: QueryType }\<close> as \<open>props\<close>. The constant \<open>QueryType\<close>
  comes from \<open>./constants\<close>, so it is a parameter.
\<close>

definition toAST :: "string \<Rightarrow> ('t, 'e, 'o, 'v) heap \<Rightarrow> ref \<Rightarrow> 'o jsobject" where
  "toAST QueryType h this = serialize h this v_toAST (Some [(''type'', Str QueryType)])"

text \<open>
  Structural comparison of serialized objects looks through references: a field
  holding a parameter object is compared by the object's contents.
\<close>

datatype ('o, 'v) plain = PUndefined | PNull | PStr string | PArr "'o list" | PObj "string \<rightharpoonup> 'v"

definition plain_of :: "('t, 'e, 'o, 'v) heap \<Rightarrow> 'o jsval \<Rightarrow> ('o, 'v) plain" where
  "plain_of h v =
     (case v of
        Undefined \<Rightarrow> PUndefined
      | Null \<Rightarrow> PNull
      | Str s \<Rightarrow> PStr s
      | Arr os \<Rightarrow> PArr os
      | Ref r \<Rightarrow> PObj (objects h ! r))"

definition structure_of :: "('t, 'e, 'o, 'v) heap \<Rightarrow> 'o jsobject \<Rightarrow> (string \<times> ('o, 'v) plain) list" where
  "structure_of h obj = map (\<lambda>(k, v). (k, plain_of h v)) obj"

subsection \<open>Parameters\<close>

text \<open>
  What spreading \<open>this._params\<close> contributes: the keys of the parameter object, or
  nothing when the field is absent.
\<close>

definition own_params :: "('t, 'e, 'o, 'v) heap \<Rightarrow> ref option \<Rightarrow> (string \<rightharpoonup> 'v)" where
  "own_params h p = (case p of None \<Rightarrow> Map.empty | Some r \<Rightarrow> objects h ! r)"

text \<open>The mapping a parameter reference stands for, \<open>None\<close> for \<open>undefined\<close>.\<close>

definition params_value :: "('t, 'e, 'o, 'v) heap \<Rightarrow> ref option \<Rightarrow> (string \<rightharpoonup> 'v) option" where
  "params_value h p = (case p of None \<Rightarrow> None | Some r \<Rightarrow> Some (objects h ! r))"

text \<open>
  \<open>params(values)\<close> answers either \<open>this\<close> or the value of \<open>_params\<close>.
  \<open>arguments\<close> is \<open>None\<close> for a call without argument (\<open>arguments.length\<close> is 0),
  and otherwise holds what spreading the argument contributes: its keys with their
  values, none for \<open>{}\<close>, \<open>null\<close> and \<open>undefined\<close>. With an argument, the object
  literal \<open>{ ...this._params, ...values }\<close> is a new object, allocated at the end of
  the store, and \<open>_params\<close> is set to it; no existing object is written to.
\<close>

datatype params_result = This ref | Params "ref option"

definition params ::
  "('t, 'e, 'o, 'v) heap \<Rightarrow> ref \<Rightarrow> (string \<rightharpoonup> 'v) option \<Rightarrow>
   params_result \<times> ('t, 'e, 'o, 'v) heap" where
  "params h this arguments =
     (case arguments of
        Some vals \<Rightarrow>
          (let merged = own_params h (q_params (queries h ! this)) ++ vals;
               h1 = h\<lparr>objects := objects h @ [merged]\<rparr>
           in (This this,
               h1\<lparr>queries := (queries h1)
                    [this := (queries h1 ! this)\<lparr>q_params := Some (length (objects h))\<rparr>]\<rparr>))
      | None \<Rightarrow> (Params (q_params (queries h ! this)), h))"

text \<open>
  Two readings of \<open>params\<close> used to state properties: the store after the call
  \<open>this.params(vals)\<close>, and the mapping that the call \<open>this.params()\<close> returns
  (\<open>None\<close> for \<open>undefined\<close>).
\<close>

definition params_set ::
  "('t, 'e, 'o, 'v) heap \<Rightarrow> ref \<Rightarrow> (string \<rightharpoonup> 'v) \<Rightarrow> ('t, 'e, 'o, 'v) heap" where
  "params_set h this vals = snd (params h this (Some vals))"

definition params_get :: "('t, 'e, 'o, 'v) heap \<Rightarrow> ref \<Rightarrow> (string \<rightharpoonup> 'v) option" where
  "params_get h this =
     (case fst (params h this None) of
        Params r \<Rightarrow> params_value h r
      | This q \<Rightarrow> None)"

subsection \<open>Evaluation\<close>

text \<open>
  \<open>evaluate(table, catalog)\<close>. The argument \<open>table\<close> is a table or is missing
  (\<open>null\<close>, \<open>undefined\<close>); a table is an object, hence truthy, so
  \<open>table || catalog(this._table)\<close> calls the catalog exactly for a missing table.
  The method \<open>params\<close> of tables belongs to the table implementation and is the
  parameter \<open>tparams\<close>; it receives the value of \<open>this._params\<close>. The loop body is
  \<open>table = verb.evaluate(table.params(this._params), catalog)\<close>; a throw ends the
  loop and the call.
\<close>

fun evaluate_loop ::
  "((string \<rightharpoonup> 'v) option \<Rightarrow> 't \<Rightarrow> 't) \<Rightarrow> ('t, 'e, 'o, 'v) heap \<Rightarrow> ref \<Rightarrow> ('t, 'e) catalog \<Rightarrow>
   ('t, 'e, 'o) Verb list \<Rightarrow> 't \<Rightarrow> 'e + 't" where
  "evaluate_loop tparams h this catalog [] table = Inr table"
| "evaluate_loop tparams h this catalog (verb # verbs) table =
     (case v_evaluate verb
             (tparams (params_value h (q_params (queries h ! this))) table) catalog of
        Inl e \<Rightarrow> Inl e
      | Inr table' \<Rightarrow> evaluate_loop tparams h this catalog verbs table')"

definition evaluate ::
  "((string \<rightharpoonup> 'v) option \<Rightarrow> 't \<Rightarrow> 't) \<Rightarrow> ('t, 'e, 'o, 'v) heap \<Rightarrow> ref \<Rightarrow> 't option \<Rightarrow>
   ('t, 'e) catalog \<Rightarrow> 'e + 't" where
  "evaluate tparams h this table catalog =
     (case (case table of
              Some t \<Rightarrow> Inr t
            | None \<Rightarrow> catalog (q_table (queries h ! this))) of
        Inl e \<Rightarrow> Inl e
      | Inr table' \<Rightarrow>
          evaluate_loop tparams h this catalog (q_verbs (queries h ! this)) table')"

text \<open>
  The specification's wording of evaluation, for comparison: a left fold of the verb
  sequence over the running table, which is annotated with the Query's parameters
  before each verb, started from the supplied table or the one the catalog resolves
  for the table name, and ended by the first failure.
\<close>

definition evaluate_fold ::
  "((string \<rightharpoonup> 'v) option \<Rightarrow> 't \<Rightarrow> 't) \<Rightarrow> ('t, 'e, 'o, 'v) heap \<Rightarrow> ref \<Rightarrow> 't option \<Rightarrow>
   ('t, 'e) catalog \<Rightarrow> 'e + 't" where
  "evaluate_fold tparams h this table catalog =
     foldl (\<lambda>running verb.
              case running of
                Inl e \<Rightarrow> Inl e
              | Inr t \<Rightarrow>
                  v_evaluate verb
                    (tparams (params_value h (q_params (queries h ! this))) t) catalog)
           (case table of Some t \<Rightarrow> Inr t | None \<Rightarrow> catalog (tableName h this))
           (q_verbs (queries h ! this))"

subsection \<open>Reconstruction\<close>

text \<open>
  \<open>verbs.map(Verb.from)\<close>: \<open>Verb.from\<close> is imported, so it is the parameter
  \<open>Verb_from\<close>; the first element it throws on ends the call.
\<close>

fun map_Verb_from :: "('o \<Rightarrow> 'e + 'b) \<Rightarrow> 'o list \<Rightarrow> 'e + 'b list" where
  "map_Verb_from Verb_from [] = Inr []"
| "map_Verb_from Verb_from (x # xs) =
     (case Verb_from x of
        Inl e \<Rightarrow> Inl e
      | Inr v \<Rightarrow>
          (case map_Verb_from Verb_from xs of
             Inl e \<Rightarrow> Inl e
           | Inr vs \<Rightarrow> Inr (v # vs)))"

text \<open>
  \<open>Query.from({ verbs, table, params })\<close>. Calling \<open>map\<close> on anything but an array
  is a TypeError. The two other fields are read at the types the constructor
  documents (\<open>params\<close> an object, \<open>table\<close> a string); a missing key, \<open>null\<close> and
  \<open>undefined\<close> give an absent field, and values of other types are outside the
  model.
\<close>

datatype 'e js_error = TypeError | Thrown 'e

definition as_object :: "'o jsval option \<Rightarrow> ref option" where
  "as_object v = (case v of Some (Ref r) \<Rightarrow> Some r | _ \<Rightarrow> None)"

definition as_string :: "'o jsval option \<Rightarrow> string option" where
  "as_string v = (case v of Some (Str s) \<Rightarrow> Some s | _ \<Rightarrow> None)"

definition Query_from ::
  "('o \<Rightarrow> 'e + ('t, 'e, 'o) Verb) \<Rightarrow> ('t, 'e, 'o, 'v) heap \<Rightarrow> 'o jsobject \<Rightarrow>
   'e js_error + ref \<times> ('t, 'e, 'o, 'v) heap" where
  "Query_from Verb_from h object =
     (case map_of object ''verbs'' of
        Some (Arr verbs) \<Rightarrow>
          (case map_Verb_from Verb_from verbs of
             Inl e \<Rightarrow> Inl (Thrown e)
           | Inr vs \<Rightarrow>
               Inr (new_Query h (Some vs)
                      (as_object (map_of object ''params''))
                      (as_string (map_of object ''table''))))
      | _ \<Rightarrow> Inl TypeError)"

definition queryFrom ::
  "('o \<Rightarrow> 'e + ('t, 'e, 'o) Verb) \<Rightarrow> ('t, 'e, 'o, 'v) heap \<Rightarrow> 'o jsobject \<Rightarrow>
   'e js_error + ref \<times> ('t, 'e, 'o, 'v) heap" where
  "queryFrom Verb_from h object = Query_from Verb_from h object"

subsection \<open>Examples\<close>

text \<open>
  Tables for the examples: a parameter annotation and one number of data. Their
  \<open>params\<close> method merges the given mapping into the annotation.
\<close>

type_synonym ex_table = "(string \<rightharpoonup> int) \<times> int"

definition ex_tparams :: "(string \<rightharpoonup> int) option \<Rightarrow> ex_table \<Rightarrow> ex_table" where
  "ex_tparams vals t = (case vals of None \<Rightarrow> t | Some m \<Rightarrow> (fst t ++ m, snd t))"

text \<open>Two verbs whose order matters: one adds 1 to the data, one doubles it.\<close>

definition verb_inc :: "(ex_table, string, string) Verb" where
  "verb_inc = \<lparr>v_evaluate = (\<lambda>t catalog. Inr (fst t, snd t + 1)),
               v_toObject = ''inc'', v_toAST = ''Inc''\<rparr>"

definition verb_dbl :: "(ex_table, string, string) Verb" where
  "verb_dbl = \<lparr>v_evaluate = (\<lambda>t catalog. Inr (fst t, 2 * snd t)),
               v_toObject = ''dbl'', v_toAST = ''Dbl''\<rparr>"

text \<open>The store after \<open>q = query('t')\<close>: \<open>q\<close> is reference 0.\<close>

definition heap_t :: "(ex_table, string, string, int) heap" where
  "heap_t = snd (query empty_heap (Some ''t''))"

text \<open>The store after \<open>q.inc()\<close>, which appends \<open>verb_inc\<close>: the result is reference 1.\<close>

definition heap_t_inc :: "(ex_table, string, string, int) heap" where
  "heap_t_inc = snd (append_query heap_t 0 verb_inc)"

text \<open>A \<open>Verb.from\<close> for the two verbs; it throws on any other encoding.\<close>

definition ex_Verb_from :: "string \<Rightarrow> string + (ex_table, string, string) Verb" where
  "ex_Verb_from obj =
     (if obj = ''inc'' then Inr verb_inc
      else if obj = ''dbl'' then Inr verb_dbl
      else Inl ''unknown verb'')"

text \<open>The store after \<open>query('')\<close>, a Query named by the empty string: reference 0.\<close>

definition heap_noname :: "(ex_table, string, string, int) heap" where
  "heap_noname = snd (query empty_heap (Some ''''))"

text \<open>
  The store after \<open>queryFrom(query('').toObject())\<close>, with \<open>query('')\<close> at
  reference 0 of \<open>heap_noname\<close>: the rebuilt Query is reference 1.
\<close>

definition heap_noname_back :: "(ex_table, string, string, int) heap" where
  "heap_noname_back =
     (case queryFrom ex_Verb_from heap_noname (toObject heap_noname 0) of
        Inl e \<Rightarrow> heap_noname
      | Inr (q, h) \<Rightarrow> h)"

text \<open>The store after \<open>query('t').params({a: 1})\<close>.\<close>

definition heap_a :: "(ex_table, string, string, int) heap" where
  "heap_a = params_set heap_t 0 [''a'' \<mapsto> 1]"

text \<open>The store after \<open>query('t').params({a: 1}).inc()\<close>: the result is reference 1.\<close>

definition heap_a_inc :: "(ex_table, string, string, int) heap" where
  "heap_a_inc = snd (append_query heap_a 0 verb_inc)"

text \<open>
  A verb that reads the parameter \<open>a\<close> from the table's annotation and adds it to
  the data; it throws when the table carries no such parameter.
\<close>

definition verb_add_a :: "(ex_table, string, string) Verb" where
  "verb_add_a =
     \<lparr>v_evaluate = (\<lambda>t catalog.
                      case fst t ''a'' of
                        None \<Rightarrow> Inl ''missing parameter a''
                      | Some x \<Rightarrow> Inr (fst t, snd t + x)),
      v_toObject = ''add_a'', v_toAST = ''AddA''\<rparr>"

text \<open>
  The stores after \<open>q1 = query('t').params({a: 1}).add_a()\<close> (reference 1) and after
  \<open>q1.dbl()\<close> (reference 2).
\<close>

definition heap_a_add :: "(ex_table, string, string, int) heap" where
  "heap_a_add = snd (append_query heap_a 0 verb_add_a)"

definition heap_a_add_dbl :: "(ex_table, string, string, int) heap" where
  "heap_a_add_dbl = snd (append_query heap_a_add 1 verb_dbl)"

text \<open>
  Two catalogs: one knows the table \<open>t\<close>, with data 3 and no annotation, and throws
  on any other name; one throws on every name.
\<close>

definition ex_catalog :: "(ex_table, string) catalog" where
  "ex_catalog name = (if name = Some ''t'' then Inr (Map.empty, 3) else Inl ''unknown table'')"

definition no_catalog :: "(ex_table, string) catalog" where
  "no_catalog name = Inl ''no catalog''"

section \<open>Properties\<close>

subsection \<open>Shared facts\<close>

lemma new_Query_ref: "fst (new_Query h verbs p table) = length (queries h)"
  by (simp add: new_Query_def)

lemma new_Query_objects: "objects (snd (new_Query h verbs p table)) = objects h"
  by (simp add: new_Query_def)

lemma new_Query_old:
  "q < length (queries h) \<Longrightarrow> queries (snd (new_Query h verbs p table)) ! q = queries h ! q"
  by (simp add: new_Query_def nth_append)

lemma new_Query_new:
  "queries (snd (new_Query h verbs p table)) ! length (queries h) =
     \<lparr>q_verbs = (case verbs of None \<Rightarrow> [] | Some vs \<Rightarrow> vs), q_params = p, q_table = table\<rparr>"
  by (simp add: new_Query_def)

lemma new_Query_length:
  "length (queries (snd (new_Query h verbs p table))) = Suc (length (queries h))"
  by (simp add: new_Query_def)

lemma serialize_cong:
  "queries h' ! q' = queries h ! q \<Longrightarrow> serialize h' q' method props = serialize h q method props"
  by (simp add: serialize_def)

lemma structure_of_cong:
  "objects h' = objects h \<Longrightarrow> structure_of h' obj = structure_of h obj"
  by (auto simp add: structure_of_def plain_of_def split: jsval.splits)

lemma append_fst: "fst (append_query h q v) = length (queries h)"
  by (simp add: append_query_def new_Query_ref)

lemma append_objects: "objects (snd (append_query h q v)) = objects h"
  by (simp add: append_query_def new_Query_objects)

lemma append_old:
  "r < length (queries h) \<Longrightarrow> queries (snd (append_query h q v)) ! r = queries h ! r"
  by (simp add: append_query_def new_Query_old)

lemma append_new:
  "queries (snd (append_query h q v)) ! length (queries h) =
     \<lparr>q_verbs = q_verbs (queries h ! q) @ [v],
      q_params = q_params (queries h ! q),
      q_table = q_table (queries h ! q)\<rparr>"
  by (simp add: append_query_def new_Query_new)

lemma append_length:
  "length (queries (snd (append_query h q v))) = Suc (length (queries h))"
  by (simp add: append_query_def new_Query_length)

lemma addQueryVerb_method:
  "(addQueryVerb name mk proto) name = Some m \<Longrightarrow> m h q args = append_query h q (mk args)"
  by (auto simp add: addQueryVerb_def)

lemma heap_t_eq:
  "heap_t = \<lparr>queries = [\<lparr>q_verbs = [], q_params = None, q_table = Some ''t''\<rparr>], objects = []\<rparr>"
  by (simp add: heap_t_def query_def new_Query_def empty_heap_def)

lemma heap_t_inc_eq:
  "heap_t_inc =
     \<lparr>queries = [\<lparr>q_verbs = [], q_params = None, q_table = Some ''t''\<rparr>,
                 \<lparr>q_verbs = [verb_inc], q_params = None, q_table = Some ''t''\<rparr>],
      objects = []\<rparr>"
  by (simp add: heap_t_inc_def append_query_def new_Query_def heap_t_eq)

subsection \<open>Append\<close>

text \<open>
  Claim C2. Let \<open>m\<close> be a builder method installed by \<open>addQueryVerb\<close> for the verb
  constructor \<open>mk\<close>, called on a live Query \<open>q\<close>. The call is \<open>append\<close> of the verb
  \<open>mk args\<close>; it yields a reference \<open>q'\<close> that was not allocated before, to an
  instance whose verbs are those of \<open>q\<close> followed by the new verb and whose
  parameter reference and table name are those of \<open>q\<close>. The instance \<open>q\<close> is the
  same after the call: same fields, same \<open>length\<close>, same \<open>toObject()\<close>.
\<close>

theorem append_immutable:
  assumes live: "q < length (queries h)"
    and meth: "(addQueryVerb name mk proto) name = Some m"
    and call: "m h q args = (q', h')"
  shows "append_query h q (mk args) = (q', h')
    \<and> \<not> q' < length (queries h)
    \<and> q' < length (queries h')
    \<and> q' \<noteq> q
    \<and> q_verbs (queries h' ! q') = q_verbs (queries h ! q) @ [mk args]
    \<and> q_params (queries h' ! q') = q_params (queries h ! q)
    \<and> q_table (queries h' ! q') = q_table (queries h ! q)
    \<and> objects h' = objects h
    \<and> queries h' ! q = queries h ! q
    \<and> Query_length h' q = Query_length h q
    \<and> toObject h' q = toObject h q
    \<and> structure_of h' (toObject h' q) = structure_of h (toObject h q)"
proof -
  have app: "append_query h q (mk args) = (q', h')"
    using addQueryVerb_method [OF meth, of h q args] call by simp
  have q': "q' = length (queries h)"
    using append_fst [of h q "mk args"] app by simp
  have h': "h' = snd (append_query h q (mk args))"
    using app by simp
  have new: "queries h' ! q' = \<lparr>q_verbs = q_verbs (queries h ! q) @ [mk args],
      q_params = q_params (queries h ! q), q_table = q_table (queries h ! q)\<rparr>"
    unfolding q' h' by (rule append_new)
  have obj: "objects h' = objects h"
    unfolding h' by (rule append_objects)
  have same: "queries h' ! q = queries h ! q"
    unfolding h' using live by (rule append_old)
  have len: "q' < length (queries h')"
    unfolding q' h' by (simp add: append_length)
  have ser: "toObject h' q = toObject h q"
    unfolding toObject_def using same by (rule serialize_cong)
  have str: "structure_of h' (toObject h' q) = structure_of h (toObject h q)"
    unfolding ser using obj by (rule structure_of_cong)
  have cnt: "Query_length h' q = Query_length h q"
    unfolding Query_length_def same ..
  from live have ne: "q' \<noteq> q" and fresh: "\<not> q' < length (queries h)"
    unfolding q' by simp_all
  from new have "q_verbs (queries h' ! q') = q_verbs (queries h ! q) @ [mk args]"
    and "q_params (queries h' ! q') = q_params (queries h ! q)"
    and "q_table (queries h' ! q') = q_table (queries h ! q)"
    by simp_all
  with app fresh len ne obj same cnt ser str show ?thesis
    by blast
qed

text \<open>
  The theorem at \<open>q = query('t')\<close> and a method \<open>inc\<close> that builds \<open>verb_inc\<close>:
  \<open>q.inc()\<close> is reference 1 with the one verb, and \<open>q\<close> still has no verb and the
  serialized form \<open>{verbs: [], table: 't'}\<close>.
\<close>

theorem append_immutable_witness:
  "0 < length (queries heap_t)
   \<and> addQueryVerb ''inc'' (\<lambda>u::unit. verb_inc) Map.empty ''inc''
       = Some (\<lambda>h this args. append_query h this verb_inc)
   \<and> append_query heap_t 0 verb_inc = (1, heap_t_inc)
   \<and> q_verbs (queries heap_t_inc ! 1) = [verb_inc]
   \<and> Query_length heap_t_inc 0 = 0
   \<and> toObject heap_t_inc 0 = [(''verbs'', Arr []), (''table'', Str ''t'')]
   \<and> toObject heap_t 0 = [(''verbs'', Arr []), (''table'', Str ''t'')]"
proof -
  have live: "0 < length (queries heap_t)"
    by (simp add: heap_t_eq)
  have meth: "addQueryVerb ''inc'' (\<lambda>u::unit. verb_inc) Map.empty ''inc''
       = Some (\<lambda>h this args. append_query h this verb_inc)"
    by (simp add: addQueryVerb_def)
  have call: "(\<lambda>h this args. append_query h this verb_inc) heap_t 0 () = (1, heap_t_inc)"
    by (simp add: heap_t_inc_def append_query_def new_Query_def heap_t_eq)
  have before: "toObject heap_t 0 = [(''verbs'', Arr []), (''table'', Str ''t'')]"
    by (simp add: toObject_def serialize_def spread_def heap_t_eq)
  have none: "Query_length heap_t 0 = 0"
    by (simp add: Query_length_def heap_t_eq)
  from append_immutable [OF live meth call] live meth before none show ?thesis
    by (simp add: heap_t_eq)
qed

subsection \<open>Serialized forms\<close>

text \<open>The object literal that \<open>serialize\<close> builds, key by key.\<close>

lemma serialize_plain:
  "serialize h q method None =
     (''verbs'', Arr (map method (q_verbs (queries h ! q)))) #
     (case q_params (queries h ! q) of None \<Rightarrow> [] | Some p \<Rightarrow> [(''params'', Ref p)]) @
     (case q_table (queries h ! q) of
        None \<Rightarrow> []
      | Some t \<Rightarrow> if t \<noteq> [] then [(''table'', Str t)] else [])"
  by (cases "q_params (queries h ! q)"; cases "q_table (queries h ! q)")
     (simp_all add: serialize_def spread_def Let_def)

lemma serialize_tagged:
  "serialize h q method (Some [(''type'', tag)]) = (''type'', tag) # serialize h q method None"
  by (cases "q_params (queries h ! q)"; cases "q_table (queries h ! q)")
     (simp_all add: serialize_def spread_def Let_def)

lemma toObject_verbs:
  "map_of (toObject h q) ''verbs'' = Some (Arr (map v_toObject (q_verbs (queries h ! q))))"
  by (simp add: toObject_def serialize_plain)

lemma toObject_params:
  "map_of (toObject h q) ''params'' = map_option Ref (q_params (queries h ! q))"
  by (simp add: toObject_def serialize_plain split: option.splits)

lemma toObject_table:
  "map_of (toObject h q) ''table'' =
     (case q_table (queries h ! q) of
        None \<Rightarrow> None
      | Some t \<Rightarrow> if t \<noteq> [] then Some (Str t) else None)"
  by (simp add: toObject_def serialize_plain split: option.splits)

lemma map_Verb_from_inverse:
  "\<forall>v\<in>set vs. Verb_from (method v) = Inr v \<Longrightarrow> map_Verb_from Verb_from (map method vs) = Inr vs"
  by (induction vs) simp_all

text \<open>
  Claim C1, as stated, fails for a Query whose table name is the empty string.
  \<open>query('').toObject()\<close> is \<open>{verbs: []}\<close>, since \<open>serialize\<close> tests the name for
  truthiness; \<open>Query.from\<close> finds no \<open>table\<close> in it, so the rebuilt Query has no
  table name, while the original has the name \<open>''\<close>. The two serialized forms are
  equal, the two table names are not.
\<close>

theorem roundtrip_counterexample:
  "queryFrom ex_Verb_from heap_noname (toObject heap_noname 0) = Inr (1, heap_noname_back)
   \<and> toObject heap_noname_back 1 = toObject heap_noname 0
   \<and> tableName heap_noname 0 = Some []
   \<and> tableName heap_noname_back 1 = None
   \<and> tableName heap_noname_back 1 \<noteq> tableName heap_noname 0"
proof -
  have eq: "heap_noname = \<lparr>queries = [\<lparr>q_verbs = [], q_params = None, q_table = Some []\<rparr>],
      objects = []\<rparr>"
    by (simp add: heap_noname_def query_def new_Query_def empty_heap_def)
  have ser: "toObject heap_noname 0 = [(''verbs'', Arr [])]"
    by (simp add: toObject_def serialize_plain eq)
  have rebuilt: "queryFrom ex_Verb_from heap_noname [(''verbs'', Arr [])] =
      Inr (1, \<lparr>queries = [\<lparr>q_verbs = [], q_params = None, q_table = Some []\<rparr>,
                           \<lparr>q_verbs = [], q_params = None, q_table = None\<rparr>],
               objects = []\<rparr>)"
    by (simp add: queryFrom_def Query_from_def as_object_def as_string_def new_Query_def eq)
  have store: "heap_noname_back =
      \<lparr>queries = [\<lparr>q_verbs = [], q_params = None, q_table = Some []\<rparr>,
                  \<lparr>q_verbs = [], q_params = None, q_table = None\<rparr>],
       objects = []\<rparr>"
    unfolding heap_noname_back_def ser rebuilt by simp
  have ser': "toObject heap_noname_back 1 = [(''verbs'', Arr [])]"
    unfolding store by (simp add: toObject_def serialize_plain)
  have name: "tableName heap_noname 0 = Some []"
    unfolding eq by (simp add: tableName_def)
  have name': "tableName heap_noname_back 1 = None"
    unfolding store by (simp add: tableName_def)
  have first: "queryFrom ex_Verb_from heap_noname (toObject heap_noname 0) =
      Inr (1, heap_noname_back)"
    unfolding ser rebuilt store ..
  from first ser ser' name name' show ?thesis
    by simp
qed

text \<open>
  Claim C1, amended. If \<open>Verb.from\<close> gives back each verb of \<open>q\<close> from its
  \<open>toObject()\<close>, then \<open>queryFrom(q.toObject())\<close> returns a Query, and the
  \<open>toObject()\<close> of that Query is the one of \<open>q\<close>: equal key by key, hence
  structurally equal. The rebuilt Query has the verbs of \<open>q\<close> in the same order and
  the same parameter object. Its table name is the one of \<open>q\<close> whenever that is
  not the empty string; when \<open>q\<close> is named by the empty string, the rebuilt Query
  has no table name.
\<close>

theorem roundtrip:
  assumes inv: "\<forall>v\<in>set (q_verbs (queries h ! q)). Verb_from (v_toObject v) = Inr v"
  shows "\<exists>q' h'. queryFrom Verb_from h (toObject h q) = Inr (q', h')
     \<and> toObject h' q' = toObject h q
     \<and> structure_of h' (toObject h' q') = structure_of h (toObject h q)
     \<and> q_verbs (queries h' ! q') = q_verbs (queries h ! q)
     \<and> q_params (queries h' ! q') = q_params (queries h ! q)
     \<and> params_get h' q' = params_get h q
     \<and> map_of (toObject h' q') ''table'' = map_of (toObject h q) ''table''
     \<and> (tableName h q \<noteq> Some [] \<longrightarrow> tableName h' q' = tableName h q)
     \<and> (tableName h q = Some [] \<longrightarrow> tableName h' q' = None)"
proof -
  let ?Q = "queries h ! q"
  let ?t = "case q_table ?Q of None \<Rightarrow> None | Some t \<Rightarrow> if t \<noteq> [] then Some t else None"
  let ?new = "new_Query h (Some (q_verbs ?Q)) (q_params ?Q) ?t"
  have p: "as_object (map_of (toObject h q) ''params'') = q_params ?Q"
    by (simp add: toObject_params as_object_def split: option.splits)
  have t: "as_string (map_of (toObject h q) ''table'') = ?t"
    by (simp add: toObject_table as_string_def split: option.splits)
  have vs: "map_Verb_from Verb_from (map v_toObject (q_verbs ?Q)) = Inr (q_verbs ?Q)"
    using inv by (rule map_Verb_from_inverse)
  have rebuilt: "queryFrom Verb_from h (toObject h q) = Inr ?new"
    by (simp add: queryFrom_def Query_from_def toObject_verbs vs p t)
  have cell: "queries (snd ?new) ! fst ?new =
      \<lparr>q_verbs = q_verbs ?Q, q_params = q_params ?Q, q_table = ?t\<rparr>"
    by (simp add: new_Query_ref new_Query_new)
  have ser: "toObject (snd ?new) (fst ?new) = toObject h q"
    by (simp add: toObject_def serialize_plain cell split: option.splits)
  have str: "structure_of (snd ?new) (toObject (snd ?new) (fst ?new)) =
      structure_of h (toObject h q)"
    unfolding ser by (rule structure_of_cong) (rule new_Query_objects)
  have val: "params_value (snd ?new) r = params_value h r" for r
    by (cases r) (simp_all add: params_value_def new_Query_objects)
  have par: "params_get (snd ?new) (fst ?new) = params_get h q"
    by (simp add: params_get_def params_def cell val)
  have name: "tableName (snd ?new) (fst ?new) = ?t"
    by (simp add: tableName_def cell)
  have same: "tableName (snd ?new) (fst ?new) = tableName h q" if "tableName h q \<noteq> Some []"
    unfolding name using that by (simp add: tableName_def split: option.splits)
  have lost: "tableName (snd ?new) (fst ?new) = None" if "tableName h q = Some []"
    unfolding name using that by (simp add: tableName_def)
  from rebuilt ser str cell par same lost show ?thesis
    by (intro exI [of _ "fst ?new"] exI [of _ "snd ?new"]) simp
qed

text \<open>
  The theorem at \<open>query('t').inc()\<close>, reference 1 of \<open>heap_t_inc\<close>: its serialized
  form \<open>{verbs: ['inc'], table: 't'}\<close> is rebuilt into a Query with the same form,
  the same verb and the same table name \<open>t\<close>.
\<close>

theorem roundtrip_witness:
  "\<exists>q' h'. queryFrom ex_Verb_from heap_t_inc (toObject heap_t_inc 1) = Inr (q', h')
     \<and> toObject h' q' = [(''verbs'', Arr [''inc'']), (''table'', Str ''t'')]
     \<and> toObject heap_t_inc 1 = [(''verbs'', Arr [''inc'']), (''table'', Str ''t'')]
     \<and> q_verbs (queries h' ! q') = [verb_inc]
     \<and> tableName h' q' = Some ''t''"
proof -
  have inv: "\<forall>v\<in>set (q_verbs (queries heap_t_inc ! 1)). ex_Verb_from (v_toObject v) = Inr v"
    by (simp add: heap_t_inc_eq ex_Verb_from_def verb_inc_def)
  have ser: "toObject heap_t_inc 1 = [(''verbs'', Arr [''inc'']), (''table'', Str ''t'')]"
    by (simp add: toObject_def serialize_plain heap_t_inc_eq verb_inc_def)
  have vs: "q_verbs (queries heap_t_inc ! 1) = [verb_inc]"
    by (simp add: heap_t_inc_eq)
  have name: "tableName heap_t_inc 1 = Some ''t''"
    by (simp add: tableName_def heap_t_inc_eq)
  from roundtrip [OF inv] show ?thesis
    unfolding ser vs name by auto
qed

text \<open>
  Claim C6, as stated, fails for a Query whose table name is the empty string:
  \<open>query('')\<close> has the table name \<open>''\<close>, yet its \<open>toObject()\<close> has no key
  \<open>table\<close>, because \<open>serialize\<close> tests the name for truthiness.
\<close>

theorem field_omission_counterexample:
  "\<not> (''table'' \<in> fst ` set (toObject heap_noname 0) \<longleftrightarrow> tableName heap_noname 0 \<noteq> None)"
  by (simp add: heap_noname_def query_def new_Query_def empty_heap_def tableName_def
        toObject_def serialize_plain)

text \<open>
  Claim C6, amended. \<open>toObject()\<close> and \<open>toJSON()\<close> are the same object. It has the
  key \<open>params\<close> exactly when the Query has a parameter object, and then the value is
  that object; it has the key \<open>table\<close> exactly when the table name is a non-empty
  string, and then the value is that name. No value of the object is \<open>null\<close> or
  \<open>undefined\<close>. In particular \<open>query().toObject()\<close> has the one key \<open>verbs\<close>, and
  \<open>query('t').toObject().table\<close> is \<open>'t'\<close>.
\<close>

theorem field_omission:
  "toJSON h q = toObject h q
   \<and> (''params'' \<in> fst ` set (toObject h q) \<longleftrightarrow> q_params (queries h ! q) \<noteq> None)
   \<and> map_of (toObject h q) ''params'' = map_option Ref (q_params (queries h ! q))
   \<and> (''table'' \<in> fst ` set (toObject h q) \<longleftrightarrow>
        (\<exists>t. tableName h q = Some t \<and> t \<noteq> []))
   \<and> map_of (toObject h q) ''table'' =
        (case tableName h q of
           None \<Rightarrow> None
         | Some t \<Rightarrow> if t \<noteq> [] then Some (Str t) else None)
   \<and> Undefined \<notin> snd ` set (toObject h q)
   \<and> Null \<notin> snd ` set (toObject h q)
   \<and> map fst (toObject (snd (query h None)) (fst (query h None))) = [''verbs'']
   \<and> map_of (toObject (snd (query h (Some ''t''))) (fst (query h (Some ''t'')))) ''table''
        = Some (Str ''t'')"
proof -
  have keys: "fst ` set (toObject h q) = dom (map_of (toObject h q))"
    by (simp add: dom_map_of_conv_image_fst)
  have p: "''params'' \<in> fst ` set (toObject h q) \<longleftrightarrow> q_params (queries h ! q) \<noteq> None"
    unfolding keys by (simp add: domIff toObject_params)
  have t: "''table'' \<in> fst ` set (toObject h q) \<longleftrightarrow> (\<exists>t. tableName h q = Some t \<and> t \<noteq> [])"
    unfolding keys by (simp add: domIff toObject_table tableName_def split: option.splits)
  have u: "Undefined \<notin> snd ` set (toObject h q)"
    by (auto simp add: toObject_def serialize_plain split: option.splits if_splits)
  have n: "Null \<notin> snd ` set (toObject h q)"
    by (auto simp add: toObject_def serialize_plain split: option.splits if_splits)
  have bare: "map fst (toObject (snd (query h None)) (fst (query h None))) = [''verbs'']"
    by (simp add: toObject_def serialize_plain query_def new_Query_ref new_Query_new)
  have named: "map_of (toObject (snd (query h (Some ''t''))) (fst (query h (Some ''t'')))) ''table''
        = Some (Str ''t'')"
    by (simp add: toObject_table query_def new_Query_ref new_Query_new)
  from p t u n bare named show ?thesis
    by (simp add: toJSON_def toObject_params toObject_table tableName_def)
qed

text \<open>
  Claim C8. The AST form is the object form with each verb serialized by \<open>toAST\<close>
  instead of \<open>toObject\<close> and with the field \<open>type\<close> put in front: the same keys in
  the same order after the tag, the same \<open>params\<close> and \<open>table\<close> entries, and a
  \<open>verbs\<close> array over the same verb sequence, hence of the same length and order.
\<close>

theorem toAST_agrees:
  "toAST QueryType h q =
     (''type'', Str QueryType) #
     map (\<lambda>(k, v). (k, if k = ''verbs'' then Arr (map v_toAST (q_verbs (queries h ! q))) else v))
         (toObject h q)
   \<and> map fst (toAST QueryType h q) = ''type'' # map fst (toObject h q)
   \<and> map_of (toAST QueryType h q) ''type'' = Some (Str QueryType)
   \<and> map_of (toObject h q) ''type'' = None
   \<and> map_of (toAST QueryType h q) ''params'' = map_of (toObject h q) ''params''
   \<and> map_of (toAST QueryType h q) ''table'' = map_of (toObject h q) ''table''
   \<and> map_of (toObject h q) ''verbs'' = Some (Arr (map v_toObject (q_verbs (queries h ! q))))
   \<and> map_of (toAST QueryType h q) ''verbs'' = Some (Arr (map v_toAST (q_verbs (queries h ! q))))
   \<and> length (map v_toAST (q_verbs (queries h ! q))) = length (map v_toObject (q_verbs (queries h ! q)))"
  by (cases "q_params (queries h ! q)"; cases "q_table (queries h ! q)")
     (simp_all add: toAST_def toObject_def serialize_tagged serialize_plain)

subsection \<open>Parameters\<close>

lemma params_get_eq: "params_get h q = params_value h (q_params (queries h ! q))"
  by (simp add: params_get_def params_def)

lemma params_set_eq:
  "params_set h q m =
     \<lparr>queries = (queries h)[q := (queries h ! q)\<lparr>q_params := Some (length (objects h))\<rparr>],
      objects = objects h @ [own_params h (q_params (queries h ! q)) ++ m]\<rparr>"
  by (simp add: params_set_def params_def Let_def)

lemma params_set_objects:
  "objects (params_set h q m) = objects h @ [own_params h (q_params (queries h ! q)) ++ m]"
  by (simp add: params_set_eq)

lemma params_set_self:
  "q < length (queries h) \<Longrightarrow>
   queries (params_set h q m) ! q = (queries h ! q)\<lparr>q_params := Some (length (objects h))\<rparr>"
  by (simp add: params_set_eq)

lemma params_set_other:
  "r \<noteq> q \<Longrightarrow> queries (params_set h q m) ! r = queries h ! r"
  by (simp add: params_set_eq)

lemma params_set_length: "length (queries (params_set h q m)) = length (queries h)"
  by (simp add: params_set_eq)

lemma params_get_set:
  "q < length (queries h) \<Longrightarrow>
   params_get (params_set h q m) q = Some (own_params h (q_params (queries h ! q)) ++ m)"
  by (simp add: params_get_eq params_set_self params_set_objects params_value_def)

lemma own_params_set:
  "q < length (queries h) \<Longrightarrow>
   own_params (params_set h q m) (q_params (queries (params_set h q m) ! q)) =
     own_params h (q_params (queries h ! q)) ++ m"
  by (simp add: params_set_self params_set_objects own_params_def)

text \<open>
  Claim C5. On a live Query \<open>q\<close>, \<open>q.params(m)\<close> returns \<open>q\<close> itself, and
  afterwards \<open>q.params()\<close> is the former mapping (empty if there was none)
  overridden by \<open>m\<close>: each key of \<open>m\<close> has the value \<open>m\<close> gives it, every other key
  keeps its value. Verbs and table name are untouched. \<open>q.params()\<close> returns the
  current parameter object and leaves the store as it is. Hence
  \<open>q.params({a: x}).params({b: y}).params()\<close> is the former mapping with \<open>a\<close> set to
  \<open>x\<close> and \<open>b\<close> to \<open>y\<close>, which is \<open>{a: x, b: y}\<close> for a Query created without
  parameters, and \<open>q.params({a: x}).params({a: y}).params()\<close> has \<open>a\<close> set to \<open>y\<close>.
\<close>

theorem params_merge:
  assumes live: "q < length (queries h)"
  shows "fst (params h q (Some m)) = This q
    \<and> params_get (params_set h q m) q = Some (own_params h (q_params (queries h ! q)) ++ m)
    \<and> (own_params h (q_params (queries h ! q)) ++ m) k =
         (case m k of Some v \<Rightarrow> Some v | None \<Rightarrow> own_params h (q_params (queries h ! q)) k)
    \<and> q_verbs (queries (params_set h q m) ! q) = q_verbs (queries h ! q)
    \<and> tableName (params_set h q m) q = tableName h q
    \<and> params h q None = (Params (q_params (queries h ! q)), h)
    \<and> params_get (params_set (params_set h q [''a'' \<mapsto> x]) q [''b'' \<mapsto> y]) q =
         Some ((own_params h (q_params (queries h ! q)))(''a'' \<mapsto> x, ''b'' \<mapsto> y))
    \<and> params_get (params_set (params_set h q [''a'' \<mapsto> x]) q [''a'' \<mapsto> y]) q =
         Some ((own_params h (q_params (queries h ! q)))(''a'' \<mapsto> y))
    \<and> (q_params (queries h ! q) = None \<longrightarrow>
         params_get (params_set (params_set h q [''a'' \<mapsto> x]) q [''b'' \<mapsto> y]) q =
           Some [''a'' \<mapsto> x, ''b'' \<mapsto> y]
         \<and> params_get (params_set (params_set h q [''a'' \<mapsto> x]) q [''a'' \<mapsto> y]) q =
           Some [''a'' \<mapsto> y])"
proof -
  let ?own = "own_params h (q_params (queries h ! q))"
  have same: "fst (params h q (Some m)) = This q"
    by (simp add: params_def Let_def)
  have merged: "params_get (params_set h q m) q = Some (?own ++ m)" for m
    using live by (rule params_get_set)
  have key: "(?own ++ m) k = (case m k of Some v \<Rightarrow> Some v | None \<Rightarrow> ?own k)"
    by (simp add: map_add_def split: option.splits)
  have frame: "q_verbs (queries (params_set h q m) ! q) = q_verbs (queries h ! q)"
    "tableName (params_set h q m) q = tableName h q"
    using live by (simp_all add: params_set_self tableName_def)
  have getter: "params h q None = (Params (q_params (queries h ! q)), h)"
    by (simp add: params_def)
  have live1: "q < length (queries (params_set h q [''a'' \<mapsto> x]))"
    using live by (simp add: params_set_length)
  have own1: "own_params (params_set h q [''a'' \<mapsto> x])
       (q_params (queries (params_set h q [''a'' \<mapsto> x]) ! q)) = ?own(''a'' \<mapsto> x)"
    using live by (simp add: own_params_set)
  have ab: "params_get (params_set (params_set h q [''a'' \<mapsto> x]) q [''b'' \<mapsto> y]) q =
         Some (?own(''a'' \<mapsto> x, ''b'' \<mapsto> y))"
    by (simp add: params_get_set [OF live1] own1)
  have aa: "params_get (params_set (params_set h q [''a'' \<mapsto> x]) q [''a'' \<mapsto> y]) q =
         Some (?own(''a'' \<mapsto> y))"
    by (simp add: params_get_set [OF live1] own1)
  have none: "q_params (queries h ! q) = None \<Longrightarrow> ?own = Map.empty"
    by (simp add: own_params_def)
  from same merged [of m] key frame getter ab aa none show ?thesis
    by simp
qed

text \<open>
  The theorem at \<open>q = query('t')\<close>, which has no parameters:
  \<open>q.params({a: 1}).params({b: 2}).params()\<close> is \<open>{a: 1, b: 2}\<close> and
  \<open>q.params({a: 1}).params({a: 2}).params()\<close> is \<open>{a: 2}\<close>.
\<close>

theorem params_merge_witness:
  "fst (params heap_t 0 (Some [''a'' \<mapsto> 1])) = This 0
   \<and> params_get heap_t 0 = None
   \<and> params_get (params_set (params_set heap_t 0 [''a'' \<mapsto> 1]) 0 [''b'' \<mapsto> 2]) 0 =
       Some [''a'' \<mapsto> 1, ''b'' \<mapsto> 2]
   \<and> params_get (params_set (params_set heap_t 0 [''a'' \<mapsto> 1]) 0 [''a'' \<mapsto> 2]) 0 =
       Some [''a'' \<mapsto> 2]"
proof -
  have live: "0 < length (queries heap_t)"
    by (simp add: heap_t_eq)
  have none: "q_params (queries heap_t ! 0) = None"
    by (simp add: heap_t_eq)
  have get: "params_get heap_t 0 = None"
    by (simp add: params_get_eq params_value_def none)
  from params_merge [OF live, of "[''a'' \<mapsto> 1]" "''a''" 1 2] none get show ?thesis
    by (simp add: own_params_def)
qed

lemma heap_a_eq:
  "heap_a = \<lparr>queries = [\<lparr>q_verbs = [], q_params = Some 0, q_table = Some ''t''\<rparr>],
             objects = [[''a'' \<mapsto> 1]]\<rparr>"
  by (simp add: heap_a_def params_set_eq heap_t_eq own_params_def)

lemma toObject_set:
  "q < length (queries h) \<Longrightarrow>
   toObject (params_set h q m) q =
     (''verbs'', Arr (map v_toObject (q_verbs (queries h ! q)))) #
     (''params'', Ref (length (objects h))) #
     (case q_table (queries h ! q) of
        None \<Rightarrow> []
      | Some t \<Rightarrow> if t \<noteq> [] then [(''table'', Str t)] else [])"
  by (simp add: toObject_def serialize_plain params_set_self)

lemma structure_of_Cons:
  "structure_of h ((k, v) # obj) = (k, plain_of h v) # structure_of h obj"
  by (simp add: structure_of_def)

lemma structure_of_table:
  "structure_of h' (case t of None \<Rightarrow> [] | Some s \<Rightarrow> if s \<noteq> [] then [(''table'', Str s)] else [])
     = structure_of h (case t of None \<Rightarrow> [] | Some s \<Rightarrow> if s \<noteq> [] then [(''table'', Str s)] else [])"
  by (cases t) (simp_all add: structure_of_def plain_of_def)

text \<open>
  Claim C9, as stated, fails for a Query without parameters. For \<open>q = query('t')\<close>
  the object literal \<open>{ ...undefined, ...{} }\<close> is a new, empty object, which is
  truthy: after \<open>q.params({})\<close> the serialized form has the key \<open>params\<close>, and
  before it has not.
\<close>

theorem empty_merge_counterexample:
  "structure_of (params_set heap_t 0 Map.empty) (toObject (params_set heap_t 0 Map.empty) 0)
     \<noteq> structure_of heap_t (toObject heap_t 0)"
proof -
  have before: "toObject heap_t 0 = [(''verbs'', Arr []), (''table'', Str ''t'')]"
    by (simp add: toObject_def serialize_plain heap_t_eq)
  have after: "toObject (params_set heap_t 0 Map.empty) 0 =
      [(''verbs'', Arr []), (''params'', Ref 0), (''table'', Str ''t'')]"
    using toObject_set [of 0 heap_t Map.empty] by (simp add: heap_t_eq)
  show ?thesis
    unfolding before after by (simp add: structure_of_def)
qed

text \<open>
  Claim C9, amended. On a live Query \<open>q\<close>, \<open>q.params({})\<close> returns \<open>q\<close> itself and
  leaves the verbs, their number, the table name and the parameters that a later
  merge or evaluation reads as they were. If \<open>q\<close> has a parameter object, the
  mapping \<open>q.params()\<close> returns and the structure of \<open>q.toObject()\<close> are as before.
  If \<open>q\<close> has none, \<open>q.params()\<close> changes from \<open>undefined\<close> to the empty mapping
  and \<open>q.toObject()\<close> gains the key \<open>params\<close>.
\<close>

theorem empty_merge:
  assumes live: "q < length (queries h)"
  shows "fst (params h q (Some Map.empty)) = This q
    \<and> q_verbs (queries (params_set h q Map.empty) ! q) = q_verbs (queries h ! q)
    \<and> Query_length (params_set h q Map.empty) q = Query_length h q
    \<and> tableName (params_set h q Map.empty) q = tableName h q
    \<and> own_params (params_set h q Map.empty) (q_params (queries (params_set h q Map.empty) ! q))
         = own_params h (q_params (queries h ! q))
    \<and> (q_params (queries h ! q) \<noteq> None \<longrightarrow>
          params_get (params_set h q Map.empty) q = params_get h q
          \<and> structure_of (params_set h q Map.empty) (toObject (params_set h q Map.empty) q)
              = structure_of h (toObject h q))
    \<and> (q_params (queries h ! q) = None \<longrightarrow>
          params_get h q = None
          \<and> params_get (params_set h q Map.empty) q = Some Map.empty
          \<and> map_of (toObject h q) ''params'' = None
          \<and> map_of (toObject (params_set h q Map.empty) q) ''params''
              = Some (Ref (length (objects h))))"
proof -
  let ?h' = "params_set h q Map.empty"
  let ?Q = "queries h ! q"
  have same: "fst (params h q (Some Map.empty)) = This q"
    by (simp add: params_def Let_def)
  have cell: "queries ?h' ! q = ?Q\<lparr>q_params := Some (length (objects h))\<rparr>"
    using live by (rule params_set_self)
  have frame: "q_verbs (queries ?h' ! q) = q_verbs ?Q"
    "Query_length ?h' q = Query_length h q" "tableName ?h' q = tableName h q"
    by (simp_all add: cell Query_length_def tableName_def)
  have own: "own_params ?h' (q_params (queries ?h' ! q)) = own_params h (q_params ?Q)"
    using live by (simp add: own_params_set)
  have get: "params_get ?h' q = Some (own_params h (q_params ?Q))"
    using live by (simp add: params_get_set)
  have present: "params_get ?h' q = params_get h q
      \<and> structure_of ?h' (toObject ?h' q) = structure_of h (toObject h q)"
    if "q_params ?Q \<noteq> None"
  proof -
    from that obtain p where p: "q_params ?Q = Some p"
      by auto
    have "params_get h q = Some (objects h ! p)"
      by (simp add: params_get_eq params_value_def p)
    moreover have "own_params h (q_params ?Q) = objects h ! p"
      by (simp add: own_params_def p)
    moreover have "structure_of ?h' (toObject ?h' q) = structure_of h (toObject h q)"
    proof -
      have after: "toObject ?h' q =
          (''verbs'', Arr (map v_toObject (q_verbs ?Q))) #
          (''params'', Ref (length (objects h))) #
          (case q_table ?Q of
             None \<Rightarrow> []
           | Some s \<Rightarrow> if s \<noteq> [] then [(''table'', Str s)] else [])"
        using live by (rule toObject_set)
      have before: "toObject h q =
          (''verbs'', Arr (map v_toObject (q_verbs ?Q))) #
          (''params'', Ref p) #
          (case q_table ?Q of
             None \<Rightarrow> []
           | Some s \<Rightarrow> if s \<noteq> [] then [(''table'', Str s)] else [])"
        by (simp add: toObject_def serialize_plain p)
      have obj: "plain_of ?h' (Ref (length (objects h))) = plain_of h (Ref p)"
        by (simp add: plain_of_def params_set_objects own_params_def p)
      have arr: "plain_of ?h' (Arr os) = plain_of h (Arr os)" for os :: "'c list"
        by (simp add: plain_of_def)
      show ?thesis
        unfolding after before structure_of_Cons obj arr
        by (simp add: structure_of_table [of ?h' _ h])
    qed
    ultimately show ?thesis
      by (simp add: get)
  qed
  have absent: "params_get h q = None \<and> params_get ?h' q = Some Map.empty
      \<and> map_of (toObject h q) ''params'' = None
      \<and> map_of (toObject ?h' q) ''params'' = Some (Ref (length (objects h)))"
    if "q_params ?Q = None"
  proof -
    have "params_get h q = None"
      by (simp add: params_get_eq params_value_def that)
    moreover have "params_get ?h' q = Some Map.empty"
      by (simp add: get own_params_def that)
    moreover have "map_of (toObject h q) ''params'' = None"
      by (simp add: toObject_params that)
    moreover have "map_of (toObject ?h' q) ''params'' = Some (Ref (length (objects h)))"
      by (simp add: toObject_params cell)
    ultimately show ?thesis
      by simp
  qed
  from same frame own present absent show ?thesis
    by blast
qed

text \<open>
  The theorem at \<open>query('t').params({a: 1})\<close>, which has a parameter object, and at
  \<open>query('t')\<close>, which has none.
\<close>

theorem empty_merge_witness:
  "fst (params heap_a 0 (Some Map.empty)) = This 0
   \<and> q_params (queries heap_a ! 0) \<noteq> None
   \<and> params_get heap_a 0 = Some [''a'' \<mapsto> 1]
   \<and> params_get (params_set heap_a 0 Map.empty) 0 = Some [''a'' \<mapsto> 1]
   \<and> structure_of (params_set heap_a 0 Map.empty) (toObject (params_set heap_a 0 Map.empty) 0)
       = structure_of heap_a (toObject heap_a 0)
   \<and> q_params (queries heap_t ! 0) = None
   \<and> params_get (params_set heap_t 0 Map.empty) 0 = Some Map.empty
   \<and> map_of (toObject (params_set heap_t 0 Map.empty) 0) ''params'' = Some (Ref 0)"
proof -
  have live_a: "0 < length (queries heap_a)"
    by (simp add: heap_a_eq)
  have some: "q_params (queries heap_a ! 0) \<noteq> None"
    by (simp add: heap_a_eq)
  have get: "params_get heap_a 0 = Some [''a'' \<mapsto> 1]"
    by (simp add: params_get_eq params_value_def heap_a_eq)
  have live_t: "0 < length (queries heap_t)"
    by (simp add: heap_t_eq)
  have none: "q_params (queries heap_t ! 0) = None"
    by (simp add: heap_t_eq)
  have len: "length (objects heap_t) = 0"
    by (simp add: heap_t_eq)
  from empty_merge [OF live_a] empty_merge [OF live_t] some get none len show ?thesis
    by simp
qed

lemma params_set_old_objects:
  "take (length (objects h)) (objects (params_set h q m)) = objects h"
  by (simp add: params_set_objects)

lemma params_set_old_object:
  "p < length (objects h) \<Longrightarrow> objects (params_set h q m) ! p = objects h ! p"
  by (simp add: params_set_objects nth_append)

text \<open>A Query other than the one whose parameters are set, with a live parameter reference.\<close>

lemma params_set_frame:
  assumes other: "r \<noteq> q"
    and ref: "case q_params (queries h ! r) of None \<Rightarrow> True | Some p \<Rightarrow> p < length (objects h)"
  shows "queries (params_set h q m) ! r = queries h ! r"
    and "params_get (params_set h q m) r = params_get h r"
    and "toObject (params_set h q m) r = toObject h r"
    and "structure_of (params_set h q m) (toObject (params_set h q m) r) = structure_of h (toObject h r)"
proof -
  let ?h' = "params_set h q m"
  show cell: "queries ?h' ! r = queries h ! r"
    using other by (rule params_set_other)
  show "params_get ?h' r = params_get h r"
    using ref
    by (simp add: params_get_eq cell params_value_def params_set_old_object split: option.splits)
  show ser: "toObject ?h' r = toObject h r"
    unfolding toObject_def using cell by (rule serialize_cong)
  have "structure_of ?h' (toObject h r) = structure_of h (toObject h r)"
  proof (cases "q_params (queries h ! r)")
    case None
    then show ?thesis
      by (simp add: toObject_def serialize_plain structure_of_Cons plain_of_def
            structure_of_table [of ?h' _ h])
  next
    case (Some p)
    with ref have "objects ?h' ! p = objects h ! p"
      by (simp add: params_set_old_object)
    with Some show ?thesis
      by (simp add: toObject_def serialize_plain structure_of_Cons plain_of_def
            structure_of_table [of ?h' _ h])
  qed
  then show "structure_of ?h' (toObject ?h' r) = structure_of h (toObject h r)"
    unfolding ser .
qed

text \<open>
  Claim C10. Let \<open>q\<close> be a live Query and \<open>q2\<close> the result of appending a verb to
  it, so that both hold the same parameter reference. \<open>q.params(m)\<close> leaves every
  parameter object allocated before as it was and gives \<open>q\<close> a new one holding the
  merge; \<open>q2\<close> keeps its reference, the mapping \<open>q2.params()\<close> returns and its
  \<open>toObject()\<close>, and from then on the two Queries hold different objects. The same
  holds with \<open>q\<close> and \<open>q2\<close> exchanged. This is so for every mapping \<open>m\<close>, empty or
  not.
\<close>

theorem params_isolated:
  assumes live: "live_query h q"
    and app: "append_query h q v = (q2, h1)"
  shows "q_params (queries h1 ! q2) = q_params (queries h1 ! q)
    \<and> take (length (objects h1)) (objects (params_set h1 q m)) = objects h1
    \<and> q_params (queries (params_set h1 q m) ! q2) = q_params (queries h1 ! q2)
    \<and> params_get (params_set h1 q m) q2 = params_get h1 q2
    \<and> toObject (params_set h1 q m) q2 = toObject h1 q2
    \<and> structure_of (params_set h1 q m) (toObject (params_set h1 q m) q2)
         = structure_of h1 (toObject h1 q2)
    \<and> q_params (queries (params_set h1 q m) ! q) \<noteq> q_params (queries (params_set h1 q m) ! q2)
    \<and> params_get (params_set h1 q m) q = Some (own_params h1 (q_params (queries h1 ! q)) ++ m)
    \<and> take (length (objects h1)) (objects (params_set h1 q2 m)) = objects h1
    \<and> q_params (queries (params_set h1 q2 m) ! q) = q_params (queries h1 ! q)
    \<and> params_get (params_set h1 q2 m) q = params_get h1 q
    \<and> toObject (params_set h1 q2 m) q = toObject h1 q
    \<and> structure_of (params_set h1 q2 m) (toObject (params_set h1 q2 m) q)
         = structure_of h1 (toObject h1 q)
    \<and> params_get (params_set h1 q2 m) q2 = Some (own_params h1 (q_params (queries h1 ! q2)) ++ m)"
proof -
  from live have lq: "q < length (queries h)"
    and ref: "case q_params (queries h ! q) of None \<Rightarrow> True | Some p \<Rightarrow> p < length (objects h)"
    by (simp_all add: live_query_def)
  from app have q2: "q2 = length (queries h)" and h1: "h1 = snd (append_query h q v)"
    using append_fst [of h q v] by simp_all
  have obj: "objects h1 = objects h"
    unfolding h1 by (rule append_objects)
  have cq: "queries h1 ! q = queries h ! q"
    unfolding h1 using lq by (rule append_old)
  have cq2: "queries h1 ! q2 = \<lparr>q_verbs = q_verbs (queries h ! q) @ [v],
      q_params = q_params (queries h ! q), q_table = q_table (queries h ! q)\<rparr>"
    unfolding h1 q2 by (rule append_new)
  have ne: "q2 \<noteq> q" "q \<noteq> q2"
    using lq by (simp_all add: q2)
  have lq1: "q < length (queries h1)" and lq2: "q2 < length (queries h1)"
    using lq by (simp_all add: h1 q2 append_length)
  have shared: "q_params (queries h1 ! q2) = q_params (queries h1 ! q)"
    by (simp add: cq cq2)
  have ref1: "case q_params (queries h1 ! q) of None \<Rightarrow> True | Some p \<Rightarrow> p < length (objects h1)"
    using ref unfolding cq obj .
  have ref2: "case q_params (queries h1 ! q2) of None \<Rightarrow> True | Some p \<Rightarrow> p < length (objects h1)"
    using ref1 unfolding shared .
  note f2 = params_set_frame [OF ne(1) ref2, of m]
  note f1 = params_set_frame [OF ne(2) ref1, of m]
  have fresh: "q_params (queries (params_set h1 q m) ! q) \<noteq> q_params (queries (params_set h1 q m) ! q2)"
    using ref2 by (auto simp add: f2(1) params_set_self [OF lq1] split: option.splits)
  from shared f1 f2 fresh params_get_set [OF lq1, of m] params_get_set [OF lq2, of m]
  show ?thesis
    by (simp add: params_set_old_objects)
qed

text \<open>
  The theorem at \<open>q = query('t').params({a: 1})\<close> and \<open>q2 = q.inc()\<close>: after
  \<open>q.params({a: 2})\<close>, \<open>q2.params()\<close> is still \<open>{a: 1}\<close> and \<open>q.params()\<close> is
  \<open>{a: 2}\<close>; after \<open>q2.params({a: 2})\<close> instead, \<open>q.params()\<close> is still \<open>{a: 1}\<close>.
\<close>

theorem params_isolated_witness:
  "live_query heap_a 0
   \<and> append_query heap_a 0 verb_inc = (1, heap_a_inc)
   \<and> params_get heap_a_inc 1 = Some [''a'' \<mapsto> 1]
   \<and> params_get (params_set heap_a_inc 0 [''a'' \<mapsto> 2]) 1 = Some [''a'' \<mapsto> 1]
   \<and> params_get (params_set heap_a_inc 0 [''a'' \<mapsto> 2]) 0 = Some [''a'' \<mapsto> 2]
   \<and> params_get (params_set heap_a_inc 1 [''a'' \<mapsto> 2]) 0 = Some [''a'' \<mapsto> 1]
   \<and> params_get (params_set heap_a_inc 1 [''a'' \<mapsto> 2]) 1 = Some [''a'' \<mapsto> 2]
   \<and> toObject (params_set heap_a_inc 0 [''a'' \<mapsto> 2]) 1 =
       [(''verbs'', Arr [''inc'']), (''params'', Ref 0), (''table'', Str ''t'')]"
proof -
  have live: "live_query heap_a 0"
    by (simp add: live_query_def heap_a_eq)
  have app: "append_query heap_a 0 verb_inc = (1, heap_a_inc)"
    by (simp add: heap_a_inc_def append_query_def new_Query_def heap_a_eq)
  have eq: "heap_a_inc =
     \<lparr>queries = [\<lparr>q_verbs = [], q_params = Some 0, q_table = Some ''t''\<rparr>,
                 \<lparr>q_verbs = [verb_inc], q_params = Some 0, q_table = Some ''t''\<rparr>],
      objects = [[''a'' \<mapsto> 1]]\<rparr>"
    by (simp add: heap_a_inc_def append_query_def new_Query_def heap_a_eq)
  have get0: "params_get heap_a_inc 0 = Some [''a'' \<mapsto> 1]"
    and get1: "params_get heap_a_inc 1 = Some [''a'' \<mapsto> 1]"
    by (simp_all add: params_get_eq params_value_def eq)
  have own: "own_params heap_a_inc (q_params (queries heap_a_inc ! 0)) = [''a'' \<mapsto> 1]"
    "own_params heap_a_inc (q_params (queries heap_a_inc ! 1)) = [''a'' \<mapsto> 1]"
    by (simp_all add: own_params_def eq)
  have ser: "toObject heap_a_inc 1 =
       [(''verbs'', Arr [''inc'']), (''params'', Ref 0), (''table'', Str ''t'')]"
    by (simp add: toObject_def serialize_plain eq verb_inc_def)
  from params_isolated [OF live app, of "[''a'' \<mapsto> 2]"] live app get0 get1 own ser
  show ?thesis
    by simp
qed

subsection \<open>Evaluation\<close>

lemma evaluate_loop_snoc:
  "evaluate_loop tparams h q catalog (vs @ [v]) t =
     (case evaluate_loop tparams h q catalog vs t of
        Inl e \<Rightarrow> Inl e
      | Inr t' \<Rightarrow> v_evaluate v (tparams (params_get h q) t') catalog)"
  by (induction vs arbitrary: t) (simp_all add: params_get_eq split: sum.splits)

lemma evaluate_loop_cong:
  "params_get h' q' = params_get h q \<Longrightarrow>
   evaluate_loop tparams h' q' catalog vs t = evaluate_loop tparams h q catalog vs t"
  by (induction vs arbitrary: t) (simp_all add: params_get_eq split: sum.splits)

lemma foldl_thrown:
  "foldl (\<lambda>running verb. case running of Inl e \<Rightarrow> Inl e | Inr t \<Rightarrow> f verb t) (Inl e) vs = Inl e"
  by (induction vs) simp_all

lemma evaluate_loop_foldl:
  "evaluate_loop tparams h q catalog vs t =
     foldl (\<lambda>running verb.
              case running of
                Inl e \<Rightarrow> Inl e
              | Inr t \<Rightarrow>
                  v_evaluate verb
                    (tparams (params_value h (q_params (queries h ! q))) t) catalog)
           (Inr t) vs"
proof (induction vs arbitrary: t)
  case Nil
  show ?case by simp
next
  case (Cons v vs)
  show ?case
  proof (cases "v_evaluate v (tparams (params_value h (q_params (queries h ! q))) t) catalog")
    case (Inl e)
    then show ?thesis
      by (simp add: foldl_thrown)
  next
    case (Inr t')
    then show ?thesis
      by (simp add: Cons.IH)
  qed
qed

lemma evaluate_supplied:
  "evaluate tparams h q (Some T) catalog =
     evaluate_loop tparams h q catalog (q_verbs (queries h ! q)) T"
  by (simp add: evaluate_def)

lemma evaluate_resolved:
  "evaluate tparams h q None catalog =
     (case catalog (tableName h q) of
        Inl e \<Rightarrow> Inl e
      | Inr t \<Rightarrow> evaluate tparams h q (Some t) catalog)"
  by (cases "catalog (q_table (queries h ! q))") (simp_all add: evaluate_def tableName_def)

lemma evaluate_is_fold:
  "evaluate tparams h q table catalog = evaluate_fold tparams h q table catalog"
proof (cases table)
  case (Some T)
  then show ?thesis
    by (simp add: evaluate_supplied evaluate_fold_def evaluate_loop_foldl)
next
  case None
  show ?thesis
  proof (cases "catalog (tableName h q)")
    case (Inl e)
    with None show ?thesis
      by (simp add: evaluate_resolved evaluate_fold_def foldl_thrown)
  next
    case (Inr t)
    with None show ?thesis
      by (simp add: evaluate_resolved evaluate_supplied evaluate_fold_def evaluate_loop_foldl)
  qed
qed

lemma evaluate_snoc:
  assumes cell: "q_verbs (queries h' ! q') = q_verbs (queries h ! q) @ [v]"
    and tab: "tableName h' q' = tableName h q"
    and par: "params_get h' q' = params_get h q"
  shows "evaluate tparams h' q' table catalog =
     (case evaluate tparams h q table catalog of
        Inl e \<Rightarrow> Inl e
      | Inr t \<Rightarrow> v_evaluate v (tparams (params_get h q) t) catalog)"
proof -
  have supplied: "evaluate tparams h' q' (Some T) catalog =
     (case evaluate tparams h q (Some T) catalog of
        Inl e \<Rightarrow> Inl e
      | Inr t \<Rightarrow> v_evaluate v (tparams (params_get h q) t) catalog)" for T
    unfolding evaluate_supplied cell evaluate_loop_cong [OF par]
    by (rule evaluate_loop_snoc)
  show ?thesis
  proof (cases table)
    case (Some T)
    then show ?thesis
      by (simp add: supplied)
  next
    case None
    then show ?thesis
      by (cases "catalog (tableName h q)") (simp_all add: evaluate_resolved tab supplied)
  qed
qed

lemma append_params_get: "params_get (snd (append_query h q v)) (length (queries h)) = params_get h q"
  by (cases "q_params (queries h ! q)")
     (simp_all add: params_get_eq append_new append_objects params_value_def)

text \<open>
  Claim C3. \<open>evaluate\<close> is the left fold of the specification, for every Query,
  table argument and catalog. For a Query \<open>qb\<close> built from \<open>q\<close> by appending \<open>A\<close>
  and then \<open>B\<close>, the verbs are those of \<open>q\<close>, then \<open>A\<close>, then \<open>B\<close>, and evaluating
  \<open>qb\<close> is: evaluate \<open>q\<close>; annotate the result with the Query's parameters and give
  it to \<open>A.evaluate\<close>; annotate what \<open>A\<close> returns and give it to \<open>B.evaluate\<close>. A
  failure at any stage is the result.
\<close>

theorem evaluate_order:
  assumes a: "append_query h q A = (qa, ha)"
    and b: "append_query ha qa B = (qb, hb)"
  shows "evaluate tparams g r table catalog = evaluate_fold tparams g r table catalog
    \<and> q_verbs (queries hb ! qb) = q_verbs (queries h ! q) @ [A, B]
    \<and> params_get hb qb = params_get h q
    \<and> evaluate tparams hb qb table catalog =
        (case evaluate tparams h q table catalog of
           Inl e \<Rightarrow> Inl e
         | Inr t0 \<Rightarrow>
             (case v_evaluate A (tparams (params_get hb qb) t0) catalog of
                Inl e \<Rightarrow> Inl e
              | Inr t1 \<Rightarrow> v_evaluate B (tparams (params_get hb qb) t1) catalog))"
proof -
  from a have qa: "qa = length (queries h)" and ha: "ha = snd (append_query h q A)"
    using append_fst [of h q A] by simp_all
  from b have qb: "qb = length (queries ha)" and hb: "hb = snd (append_query ha qa B)"
    using append_fst [of ha qa B] by simp_all
  have ca: "queries ha ! qa = \<lparr>q_verbs = q_verbs (queries h ! q) @ [A],
      q_params = q_params (queries h ! q), q_table = q_table (queries h ! q)\<rparr>"
    unfolding qa ha by (rule append_new)
  have cb: "queries hb ! qb = \<lparr>q_verbs = q_verbs (queries ha ! qa) @ [B],
      q_params = q_params (queries ha ! qa), q_table = q_table (queries ha ! qa)\<rparr>"
    unfolding qb hb by (rule append_new)
  have pa: "params_get ha qa = params_get h q"
    unfolding qa ha by (rule append_params_get)
  have pb: "params_get hb qb = params_get ha qa"
    unfolding qb hb by (rule append_params_get)
  have ea: "evaluate tparams ha qa table catalog =
     (case evaluate tparams h q table catalog of
        Inl e \<Rightarrow> Inl e
      | Inr t \<Rightarrow> v_evaluate A (tparams (params_get h q) t) catalog)"
    by (rule evaluate_snoc) (simp_all add: ca pa tableName_def)
  have eb: "evaluate tparams hb qb table catalog =
     (case evaluate tparams ha qa table catalog of
        Inl e \<Rightarrow> Inl e
      | Inr t \<Rightarrow> v_evaluate B (tparams (params_get ha qa) t) catalog)"
    by (rule evaluate_snoc) (simp_all add: cb pb tableName_def)
  have verbs: "q_verbs (queries hb ! qb) = q_verbs (queries h ! q) @ [A, B]"
    by (simp add: cb ca)
  have chain: "evaluate tparams hb qb table catalog =
        (case evaluate tparams h q table catalog of
           Inl e \<Rightarrow> Inl e
         | Inr t0 \<Rightarrow>
             (case v_evaluate A (tparams (params_get hb qb) t0) catalog of
                Inl e \<Rightarrow> Inl e
              | Inr t1 \<Rightarrow> v_evaluate B (tparams (params_get hb qb) t1) catalog))"
    unfolding eb ea pb pa by (simp split: sum.splits)
  from evaluate_is_fold [of tparams g r table catalog] verbs pa pb chain show ?thesis
    by simp
qed

lemma heap_a_add_eq:
  "heap_a_add =
     \<lparr>queries = [\<lparr>q_verbs = [], q_params = Some 0, q_table = Some ''t''\<rparr>,
                 \<lparr>q_verbs = [verb_add_a], q_params = Some 0, q_table = Some ''t''\<rparr>],
      objects = [[''a'' \<mapsto> 1]]\<rparr>"
  by (simp add: heap_a_add_def append_query_def new_Query_def heap_a_eq)

lemma heap_a_add_dbl_eq:
  "heap_a_add_dbl =
     \<lparr>queries = [\<lparr>q_verbs = [], q_params = Some 0, q_table = Some ''t''\<rparr>,
                 \<lparr>q_verbs = [verb_add_a], q_params = Some 0, q_table = Some ''t''\<rparr>,
                 \<lparr>q_verbs = [verb_add_a, verb_dbl], q_params = Some 0, q_table = Some ''t''\<rparr>],
      objects = [[''a'' \<mapsto> 1]]\<rparr>"
  by (simp add: heap_a_add_dbl_def append_query_def new_Query_def heap_a_add_eq)

text \<open>
  The theorem at \<open>query('t').params({a: 1})\<close> with \<open>A\<close> adding the parameter \<open>a\<close> to
  the data and \<open>B\<close> doubling it: from the catalog's table with data 3 and no
  annotation the result has data \<open>(3 + 1) * 2\<close> and carries the annotation. \<open>A\<close>
  would throw on a table that was not annotated first.
\<close>

theorem evaluate_order_witness:
  "append_query heap_a 0 verb_add_a = (1, heap_a_add)
   \<and> append_query heap_a_add 1 verb_dbl = (2, heap_a_add_dbl)
   \<and> evaluate ex_tparams heap_a 0 None ex_catalog = Inr (Map.empty, 3)
   \<and> evaluate ex_tparams heap_a_add_dbl 2 None ex_catalog = Inr ([''a'' \<mapsto> 1], 8)"
proof -
  have a: "append_query heap_a 0 verb_add_a = (1, heap_a_add)"
    by (simp add: heap_a_add_def append_query_def new_Query_def heap_a_eq)
  have b: "append_query heap_a_add 1 verb_dbl = (2, heap_a_add_dbl)"
    by (simp add: heap_a_add_dbl_def append_query_def new_Query_def heap_a_add_eq)
  have start: "evaluate ex_tparams heap_a 0 None ex_catalog = Inr (Map.empty, 3)"
    by (simp add: evaluate_def heap_a_eq ex_catalog_def)
  have p: "params_get heap_a_add_dbl 2 = Some [''a'' \<mapsto> 1]"
    by (simp add: params_get_eq params_value_def heap_a_add_dbl_eq)
  have "evaluate ex_tparams heap_a_add_dbl 2 None ex_catalog = Inr ([''a'' \<mapsto> 1], 8)"
    using evaluate_order [OF a b, of ex_tparams heap_a 0 None ex_catalog]
    unfolding start p
    by (simp add: ex_tparams_def verb_add_a_def verb_dbl_def)
  with a b start show ?thesis
    by simp
qed

text \<open>
  Claim C4, as stated, fails where it says that the table returned for an empty
  pipeline is parameter-annotated: \<open>table.params(this._params)\<close> is called in the
  loop body only, once per verb. For \<open>query('t').params({a: 1})\<close> and a table
  without annotation, \<open>evaluate\<close> returns that table, which differs from the
  annotated one.
\<close>

theorem empty_pipeline_counterexample:
  "evaluate ex_tparams heap_a 0 (Some (Map.empty, 5)) ex_catalog
     \<noteq> Inr (ex_tparams (params_get heap_a 0) (Map.empty, 5))"
proof -
  have "evaluate ex_tparams heap_a 0 (Some (Map.empty, 5)) ex_catalog = Inr (Map.empty, 5)"
    by (simp add: evaluate_def heap_a_eq)
  moreover have "ex_tparams (params_get heap_a 0) (Map.empty, 5) = ([''a'' \<mapsto> 1], 5)"
    by (simp add: ex_tparams_def params_get_eq params_value_def heap_a_eq)
  moreover have "(Map.empty :: string \<rightharpoonup> int) \<noteq> [''a'' \<mapsto> 1]"
    by (auto dest: fun_cong [of _ _ "''a''"])
  ultimately show ?thesis
    by simp
qed

text \<open>
  Claim C4, amended. For a Query without verbs, \<open>evaluate\<close> returns the table it is
  given, or else what the catalog returns for the table name, as it is and without
  annotating it. In particular \<open>query('t').evaluate(null, catalog)\<close> is \<open>T\<close> when
  \<open>catalog('t')\<close> is \<open>T\<close>.
\<close>

theorem empty_pipeline:
  assumes none: "Query_length h q = 0"
  shows "evaluate tparams h q (Some T) catalog = Inr T
    \<and> evaluate tparams h q None catalog = catalog (tableName h q)
    \<and> (catalog (tableName h q) = Inr T \<longrightarrow> evaluate tparams h q None catalog = Inr T)
    \<and> (catalog (Some ''t'') = Inr T \<longrightarrow>
         evaluate tparams (snd (query g (Some ''t''))) (fst (query g (Some ''t''))) None catalog
           = Inr T)"
proof -
  from none have vs: "q_verbs (queries h ! q) = []"
    by (simp add: Query_length_def)
  have supplied: "evaluate tparams h q (Some T) catalog = Inr T" for T
    by (simp add: evaluate_supplied vs)
  have resolved: "evaluate tparams h q None catalog = catalog (tableName h q)"
    by (cases "catalog (tableName h q)") (simp_all add: evaluate_resolved supplied)
  have cell: "queries (snd (query g (Some ''t''))) ! fst (query g (Some ''t'')) =
      \<lparr>q_verbs = [], q_params = None, q_table = Some ''t''\<rparr>"
    by (simp add: query_def new_Query_ref new_Query_new)
  have fresh: "evaluate tparams (snd (query g (Some ''t''))) (fst (query g (Some ''t''))) None catalog
      = Inr T" if "catalog (Some ''t'') = Inr T"
    using that by (simp add: evaluate_def cell)
  from supplied resolved fresh show ?thesis
    by simp
qed

text \<open>
  The theorem at \<open>query('t').params({a: 1})\<close> and at \<open>query('t')\<close>, with the catalog
  that knows \<open>t\<close>.
\<close>

theorem empty_pipeline_witness:
  "Query_length heap_a 0 = 0
   \<and> ex_catalog (tableName heap_a 0) = Inr (Map.empty, 3)
   \<and> evaluate ex_tparams heap_a 0 None ex_catalog = Inr (Map.empty, 3)
   \<and> evaluate ex_tparams heap_a 0 (Some (Map.empty, 5)) ex_catalog = Inr (Map.empty, 5)
   \<and> evaluate ex_tparams heap_t 0 None ex_catalog = Inr (Map.empty, 3)"
proof -
  have none: "Query_length heap_a 0 = 0"
    by (simp add: Query_length_def heap_a_eq)
  have cat: "ex_catalog (tableName heap_a 0) = Inr (Map.empty, 3)"
    by (simp add: ex_catalog_def tableName_def heap_a_eq)
  have cat': "ex_catalog (Some ''t'') = Inr (Map.empty, 3)"
    by (simp add: ex_catalog_def)
  have t: "snd (query empty_heap (Some ''t'')) = heap_t" "fst (query empty_heap (Some ''t'')) = 0"
    by (simp_all add: heap_t_def query_def new_Query_def empty_heap_def)
  note at5 = empty_pipeline [OF none, of ex_tparams "(Map.empty, 5)" ex_catalog
      "empty_heap :: (ex_table, string, string, int) heap"]
  note at3 = empty_pipeline [OF none, of ex_tparams "(Map.empty, 3)" ex_catalog
      "empty_heap :: (ex_table, string, string, int) heap", unfolded t]
  from at5 at3 none cat cat' show ?thesis
    by simp
qed

text \<open>
  Claim C7. The catalog is a function, so a call to it shows only in what
  \<open>evaluate\<close> returns. Without a table argument, \<open>evaluate\<close> is determined by
  \<open>catalog(tableName)\<close>: what the catalog throws is the result, and a table it
  returns is evaluated like a supplied one. With a table argument, the result is
  the loop over the verbs started from that table; the catalog is only handed on
  to the verbs, so two catalogs that the verbs of the Query do not tell apart give
  the same result, however they differ on the table name.
\<close>

theorem catalog_resolution:
  "evaluate tparams h q None catalog =
     (case catalog (tableName h q) of
        Inl e \<Rightarrow> Inl e
      | Inr t \<Rightarrow> evaluate tparams h q (Some t) catalog)
   \<and> (catalog (tableName h q) = Inl e \<longrightarrow> evaluate tparams h q None catalog = Inl e)
   \<and> evaluate tparams h q (Some T) catalog =
       evaluate_loop tparams h q catalog (q_verbs (queries h ! q)) T
   \<and> ((\<forall>v\<in>set (q_verbs (queries h ! q)). \<forall>t. v_evaluate v t catalog = v_evaluate v t catalog') \<longrightarrow>
        evaluate tparams h q (Some T) catalog = evaluate tparams h q (Some T) catalog')"
proof -
  have indep: "evaluate_loop tparams h q catalog vs t = evaluate_loop tparams h q catalog' vs t"
    if "\<forall>v\<in>set vs. \<forall>t. v_evaluate v t catalog = v_evaluate v t catalog'" for vs t
    using that by (induction vs arbitrary: t) (simp_all split: sum.splits)
  show ?thesis
    by (simp add: evaluate_resolved evaluate_supplied indep)
qed

text \<open>
  The theorem at \<open>query('t').inc()\<close>, with the catalog that knows \<open>t\<close> and the one
  that always throws: without a table the first gives the table of the catalog
  incremented and the second gives the thrown value; with a table both give the same.
\<close>

theorem catalog_resolution_witness:
  "evaluate ex_tparams heap_t_inc 1 None ex_catalog = Inr (Map.empty, 4)
   \<and> evaluate ex_tparams heap_t_inc 1 None no_catalog = Inl ''no catalog''
   \<and> evaluate ex_tparams heap_t_inc 1 (Some (Map.empty, 5)) ex_catalog = Inr (Map.empty, 6)
   \<and> evaluate ex_tparams heap_t_inc 1 (Some (Map.empty, 5)) no_catalog = Inr (Map.empty, 6)"
proof -
  have name: "tableName heap_t_inc 1 = Some ''t''"
    by (simp add: tableName_def heap_t_inc_eq)
  have known: "ex_catalog (Some ''t'') = Inr (Map.empty, 3)"
    by (simp add: ex_catalog_def)
  have thrown: "no_catalog (Some ''t'') = Inl ''no catalog''"
    by (simp add: no_catalog_def)
  have verbs: "q_verbs (queries heap_t_inc ! 1) = [verb_inc]"
    by (simp add: heap_t_inc_eq)
  have p: "params_value heap_t_inc (q_params (queries heap_t_inc ! 1)) = None"
    by (simp add: params_value_def heap_t_inc_eq)
  have same: "\<forall>v\<in>set (q_verbs (queries heap_t_inc ! 1)).
      \<forall>t. v_evaluate v t ex_catalog = v_evaluate v t no_catalog"
    unfolding verbs by (simp add: verb_inc_def)
  have run: "evaluate_loop ex_tparams heap_t_inc 1 ex_catalog [verb_inc] (m, d) = Inr (m, d + 1)"
    for m d
    unfolding evaluate_loop.simps p by (simp add: ex_tparams_def verb_inc_def)
  note at5 = catalog_resolution
    [of ex_tparams heap_t_inc 1 ex_catalog "''no catalog''" "(Map.empty, 5)" no_catalog]
  note at3 = catalog_resolution
    [of ex_tparams heap_t_inc 1 ex_catalog "''no catalog''" "(Map.empty, 3)" no_catalog]
  note thr = catalog_resolution
    [of ex_tparams heap_t_inc 1 no_catalog "''no catalog''" "(Map.empty, 3)" ex_catalog]
  have indep: "evaluate ex_tparams heap_t_inc 1 (Some (Map.empty, 5)) ex_catalog =
      evaluate ex_tparams heap_t_inc 1 (Some (Map.empty, 5)) no_catalog"
    using at5 same by blast
  have sup5: "evaluate ex_tparams heap_t_inc 1 (Some (Map.empty, 5)) ex_catalog = Inr (Map.empty, 6)"
    using at5 unfolding verbs run by simp
  have sup3: "evaluate ex_tparams heap_t_inc 1 (Some (Map.empty, 3)) ex_catalog = Inr (Map.empty, 4)"
    using at3 unfolding verbs run by simp
  have res: "evaluate ex_tparams heap_t_inc 1 None ex_catalog = Inr (Map.empty, 4)"
    using at3 sup3 unfolding name known by simp
  have err: "evaluate ex_tparams heap_t_inc 1 None no_catalog = Inl ''no catalog''"
    using thr unfolding name thrown by simp
  from res err sup5 indep show ?thesis
    by simp
qed

end
